theory Spec2Isabelle
  imports Complex_Main "HOL-Library.Multiset" "HOL-Library.Product_Lexorder"
    "HOL-Library.List_Lexorder" "HOL-Library.Char_ord" "HOL-Library.AList"
begin

text \<open>
  A shallow embedding of the ledger and settlement core of the Telegram finance bot:
  the netting of debt records and the greedy settlement planner (\<^verbatim>\<open>finance.py\<close>), the
  clearing of debts and the deletion of transactions (\<^verbatim>\<open>database.py\<close>), and the CSV
  import (\<^verbatim>\<open>finance.py\<close>, with the classification step of \<^verbatim>\<open>bot.py\<close>). The first
  half defines the model, function by function; the second half proves the properties.
\<close>

section \<open>Monetary values\<close>

text \<open>
  The bot keeps every amount in a Python \<^verbatim>\<open>float\<close> and rounds with
  \<^verbatim>\<open>round(x, 2)\<close>. The embedding computes in exact decimal arithmetic: \<open>money\<close> is
  \<^typ>\<open>rat\<close>, a stored amount such as \<^verbatim>\<open>0.10\<close> stands for the decimal it is written
  as, comparison against \<^verbatim>\<open>0.01\<close> is comparison against \<open>1/100\<close>, and
  \<^verbatim>\<open>round(x, 2)\<close> is rounding to the nearest hundredth with ties going to the even
  hundredth. The program and the model agree wherever the program's binary arithmetic
  stays within rounding distance of the decimal result and no comparison sits on a
  boundary; they part where a double sum or difference falls on the other side of a
  comparison (\<^verbatim>\<open>0.03 - 0.02 < 0.01\<close>, \<^verbatim>\<open>0.3 - 0.1 < 0.2\<close>), where a binary tie is
  not a decimal tie, and on infinities and NaN. The theorems below are stated on whole
  cents and away from those boundaries.
\<close>

type_synonym money = rat

definition py_round :: "rat \<Rightarrow> int" where
  "py_round y =
     (let f = \<lfloor>y\<rfloor>; d = y - of_int f
      in if d < 1/2 then f
         else if 1/2 < d then f + 1
         else if even f then f else f + 1)"

definition round2 :: "money \<Rightarrow> money" where
  "round2 x = of_int (py_round (x * 100)) / 100"

text \<open>A whole number of cents: a value that \<open>round2\<close> leaves alone.\<close>

definition is_cents :: "money \<Rightarrow> bool" where
  "is_cents x = (of_int \<lfloor>x * 100\<rfloor> = x * 100)"

section \<open>Strings\<close>

text \<open>
  A string is a list of bytes (UTF-8). \<^verbatim>\<open>str.lower()\<close> and \<^verbatim>\<open>str.strip()\<close> are
  modelled on the ASCII range: \<open>lower\<close> maps \<open>A\<close>..\<open>Z\<close> to \<open>a\<close>..\<open>z\<close> and leaves every
  other byte alone, \<open>strip\<close> removes the ASCII white space Python removes.
\<close>

definition lower_char :: "char \<Rightarrow> char" where
  "lower_char c =
     (if CHR ''A'' \<le> c \<and> c \<le> CHR ''Z'' then char_of (of_char c + (32::nat)) else c)"

definition lower :: "string \<Rightarrow> string" where
  "lower s = map lower_char s"

definition is_space :: "char \<Rightarrow> bool" where
  "is_space c = (c = CHR '' '' \<or> (CHR 0x09 \<le> c \<and> c \<le> CHR 0x0D) \<or> (CHR 0x1C \<le> c \<and> c \<le> CHR 0x1F))"

definition strip :: "string \<Rightarrow> string" where
  "strip s = rev (dropWhile is_space (rev (dropWhile is_space s)))"

section \<open>Debt rows and net balances (finance.py)\<close>

text \<open>
  A row of the \<^verbatim>\<open>debts\<close> table. \<^verbatim>\<open>get_all_debts\<close> hands these rows to
  \<^verbatim>\<open>compute_balances\<close> as dictionaries with the same keys.
\<close>

record debt =
  debt_id :: nat
  creditor :: string
  debtor :: string
  amount :: money
  description :: string
  settled :: bool
  created_at :: string

text \<open>
  A Python \<^verbatim>\<open>dict\<close> from person to amount is an association list in insertion
  order. \<open>net_get net k\<close> is \<^verbatim>\<open>net.get(k, 0)\<close>, and \<^verbatim>\<open>net[k] = v\<close> is
  \<^const>\<open>AList.update\<close>: it overwrites the entry in place or appends a new one.
\<close>

type_synonym balances = "(string \<times> money) list"

definition net_get :: "balances \<Rightarrow> string \<Rightarrow> money" where
  "net_get net k = (case map_of net k of None \<Rightarrow> 0 | Some v \<Rightarrow> v)"

text \<open>The body of the loop over \<^verbatim>\<open>debt_rows\<close>.\<close>

definition accumulate :: "balances \<Rightarrow> debt \<Rightarrow> balances" where
  "accumulate net row =
     (let c = lower (creditor row);
          d = lower (debtor row);
          a = amount row
      in if c = ''me'' then AList.update d (net_get net d + a) net
         else if d = ''me'' then AList.update c (net_get net c - a) net
         else
           (let net1 = AList.update d (net_get net d - a) net
            in AList.update c (net_get net1 c + a) net1))"

definition compute_balances :: "debt list \<Rightarrow> balances" where
  "compute_balances debt_rows =
     map (\<lambda>(k, v). (k, round2 v))
       (filter (\<lambda>(k, v). 1/100 \<le> \<bar>v\<bar>) (foldl accumulate [] debt_rows))"

section \<open>Settlement planner (finance.py)\<close>

type_synonym transfer = "string \<times> string \<times> money"

text \<open>
  \<^verbatim>\<open>sorted([[v, k] ...], reverse=True)\<close> compares the two-element lists
  lexicographically, amount first and handle second, and returns them in descending
  order. The order on pairs is the lexicographic one, strings are compared byte by byte.
\<close>

definition creditors_of :: "balances \<Rightarrow> (money \<times> string) list" where
  "creditors_of bs = rev (sort (map (\<lambda>(k, v). (v, k)) (filter (\<lambda>(k, v). 0 < v) bs)))"

definition debtors_of :: "balances \<Rightarrow> (money \<times> string) list" where
  "debtors_of bs = rev (sort (map (\<lambda>(k, v). (\<bar>v\<bar>, k)) (filter (\<lambda>(k, v). v < 0) bs)))"

text \<open>
  The two-pointer loop. Its arguments are \<^verbatim>\<open>creditors[i:]\<close> and \<^verbatim>\<open>debtors[j:]\<close>:
  the head of each list carries the remainder the source writes back into
  \<^verbatim>\<open>creditors[i][0]\<close> and \<^verbatim>\<open>debtors[j][0]\<close>, and advancing a pointer drops the head.
  The loop is not structurally recursive. In exact decimal arithmetic it terminates:
  the smaller remainder rounds away to zero, so one pointer advances in every iteration.
\<close>

lemma py_round_small:
  assumes "- (1/2) \<le> z" "z \<le> 1/2"
  shows "py_round z = 0"
proof (cases "0 \<le> z")
  case True
  with assms have "\<lfloor>z\<rfloor> = 0" by (simp add: floor_eq_iff)
  with assms show ?thesis by (simp add: py_round_def)
next
  case False
  with assms have "\<lfloor>z\<rfloor> = -1" by (simp add: floor_eq_iff)
  with assms False show ?thesis by (auto simp add: py_round_def Let_def)
qed

lemma py_round_near: "\<bar>y - of_int (py_round y)\<bar> \<le> 1/2"
proof -
  have "of_int \<lfloor>y\<rfloor> \<le> y" "y < of_int \<lfloor>y\<rfloor> + 1" by linarith+
  then show ?thesis by (auto simp add: py_round_def Let_def)
qed

lemma round2_residue: "round2 (m - round2 m) = 0"
proof -
  have "(m - round2 m) * 100 = m * 100 - of_int (py_round (m * 100))"
    by (simp add: round2_def algebra_simps)
  moreover have "py_round (m * 100 - of_int (py_round (m * 100))) = 0"
    using py_round_near [of "m * 100"] by (intro py_round_small) linarith+
  ultimately show ?thesis by (simp add: round2_def)
qed

lemma pointer_advances:
  "round2 (credit - round2 (min credit debt)) < 1/100 \<or>
   round2 (debt - round2 (min credit debt)) < 1/100"
proof (cases "credit \<le> debt")
  case True
  then have "round2 (credit - round2 (min credit debt)) = 0"
    by (simp add: min_def round2_residue)
  then show ?thesis by simp
next
  case False
  then have "round2 (debt - round2 (min credit debt)) = 0"
    by (simp add: min_def round2_residue)
  then show ?thesis by simp
qed

function settle_loop ::
  "(money \<times> string) list \<Rightarrow> (money \<times> string) list \<Rightarrow> transfer list" where
  "settle_loop [] ds = []"
| "settle_loop (c # cs) [] = []"
| "settle_loop ((credit, creditor_i) # cs) ((debt, debtor_j) # ds) =
     (let amount = round2 (min credit debt);
          credit' = round2 (credit - amount);
          debt' = round2 (debt - amount)
      in (debtor_j, creditor_i, amount) #
         settle_loop (if credit' < 1/100 then cs else (credit', creditor_i) # cs)
                     (if debt' < 1/100 then ds else (debt', debtor_j) # ds))"
  by pat_completeness auto

termination settle_loop
proof (relation "measure (\<lambda>(cs, ds). length cs + length ds)")
  show "wf (measure (\<lambda>(cs, ds). length cs + length ds))" by simp
next
  fix credit debt x xa xb :: money and creditor_i debtor_j :: string
    and cs ds :: "(money \<times> string) list"
  assume "x = round2 (min credit debt)" "xa = round2 (credit - x)" "xb = round2 (debt - x)"
  then show "((if xa < 1 / 100 then cs else (xa, creditor_i) # cs,
               if xb < 1 / 100 then ds else (xb, debtor_j) # ds),
              (credit, creditor_i) # cs, (debt, debtor_j) # ds)
             \<in> measure (\<lambda>(cs, ds). length cs + length ds)"
    using pointer_advances [of credit debt] by auto
qed

definition minimal_transfers :: "balances \<Rightarrow> transfer list" where
  "minimal_transfers bs = settle_loop (creditors_of bs) (debtors_of bs)"






text \<open>
  Descending in the order of the sort: amounts fall, and among equal amounts the handles
  fall.
\<close>

definition descending :: "(money \<times> string) list \<Rightarrow> bool" where
  "descending xs = sorted_wrt (\<lambda>(v1, k1) (v2, k2). v2 < v1 \<or> (v2 = v1 \<and> k2 \<le> k1)) xs"

section \<open>The ledger store (database.py)\<close>

text \<open>
  The SQLite file is modelled by its tables: the \<^verbatim>\<open>debts\<close> rows and the
  \<^verbatim>\<open>transactions\<close> rows in insertion order, and the \<^verbatim>\<open>balance\<close> entry of the
  \<^verbatim>\<open>config\<close> table (absent until a balance is set). Every method of the class opens
  a connection of its own (\<^verbatim>\<open>self._conn()\<close>), and the connection's context manager
  commits when its block ends and rolls back when an exception leaves it. Two failures
  of the store are part of the model. A statement that violates a \<^verbatim>\<open>CHECK\<close>
  constraint of the schema raises \<^verbatim>\<open>sqlite3.IntegrityError\<close>. A connection that writes
  while another connection holds an uncommitted write cannot take the write lock and
  raises \<^verbatim>\<open>sqlite3.OperationalError\<close> (database is locked) once its busy timeout has
  run out.
\<close>

datatype db_error = IntegrityError | OperationalError

record txn =
  txn_id :: nat
  txn_amount :: money
  txn_type :: string
  txn_category :: string
  txn_description :: string
  txn_created_at :: string

record database =
  debts :: "debt list"
  transactions :: "txn list"
  balance :: "money option"

text \<open>
  \<^verbatim>\<open>add_debt\<close>: the row id (\<^verbatim>\<open>AUTOINCREMENT\<close>) and the time stamp
  (\<^verbatim>\<open>datetime('now','localtime')\<close>) come from the store and are parameters here.
  The schema demands \<^verbatim>\<open>CHECK(amount > 0)\<close>.
\<close>

definition debt_row :: "nat \<Rightarrow> string \<Rightarrow> string \<Rightarrow> string \<Rightarrow> money \<Rightarrow> string \<Rightarrow> debt" where
  "debt_row new_id now c d a descr =
     \<lparr>debt_id = new_id, creditor = lower c, debtor = lower d, amount = round2 a,
      description = descr, settled = False, created_at = now\<rparr>"

definition add_debt ::
  "nat \<Rightarrow> string \<Rightarrow> string \<Rightarrow> string \<Rightarrow> money \<Rightarrow> string \<Rightarrow> database \<Rightarrow> db_error + database" where
  "add_debt new_id now c d a descr db =
     (if 0 < round2 a then Inr (db\<lparr>debts := debts db @ [debt_row new_id now c d a descr]\<rparr>)
      else Inl IntegrityError)"

text \<open>
  The \<^verbatim>\<open>WHERE\<close> clause of \<^verbatim>\<open>clear_debt\<close> and its \<^verbatim>\<open>ORDER BY created_at\<close>. Time
  stamps are text and compare byte by byte; rows with equal time stamps keep their table
  order.
\<close>

definition involves :: "string \<Rightarrow> debt \<Rightarrow> bool" where
  "involves person r = (\<not> settled r \<and> (creditor r = person \<or> debtor r = person))"

definition matching :: "string \<Rightarrow> debt list \<Rightarrow> debt list" where
  "matching person table = sort_key created_at (filter (involves person) table)"

text \<open>\<^verbatim>\<open>UPDATE debts SET settled = 1 WHERE id = ?\<close> and \<^verbatim>\<open>UPDATE debts SET amount = ? WHERE id = ?\<close>.\<close>

definition set_settled :: "nat \<Rightarrow> debt list \<Rightarrow> debt list" where
  "set_settled i table = map (\<lambda>r. if debt_id r = i then r\<lparr>settled := True\<rparr> else r) table"

definition set_amount :: "nat \<Rightarrow> money \<Rightarrow> debt list \<Rightarrow> debt list" where
  "set_amount i a table = map (\<lambda>r. if debt_id r = i then r\<lparr>amount := a\<rparr> else r) table"

text \<open>
  The loop of \<^verbatim>\<open>clear_debt\<close> over the fetched rows, with the loop variables
  \<^verbatim>\<open>remaining\<close> and \<^verbatim>\<open>cleared\<close> and the table the updates go to. The amounts read
  are those of the fetched rows, as in the source.
\<close>

fun clear_rows ::
  "debt list \<Rightarrow> money option \<Rightarrow> money \<Rightarrow> debt list \<Rightarrow> db_error + (money \<times> debt list)" where
  "clear_rows [] remaining cleared table = Inr (cleared, table)"
| "clear_rows (row # rows) remaining cleared table =
     (case remaining of
        None \<Rightarrow>
          clear_rows rows None (cleared + amount row) (set_settled (debt_id row) table)
      | Some rem \<Rightarrow>
          if rem \<le> 0 then Inr (cleared, table)
          else if amount row \<le> rem then
            clear_rows rows (Some (rem - amount row)) (cleared + amount row)
              (set_settled (debt_id row) table)
          else
            (let new_amount = round2 (amount row - rem)
             in if 0 < new_amount then
                  clear_rows rows (Some 0) (cleared + rem)
                    (set_amount (debt_id row) new_amount table)
                else Inl IntegrityError))"

definition clear_debt ::
  "string \<Rightarrow> money option \<Rightarrow> database \<Rightarrow> db_error + (money option \<times> database)" where
  "clear_debt person amt db =
     (let rows = matching (lower person) (debts db)
      in if rows = [] then Inr (None, db)
         else
           (case clear_rows rows amt 0 (debts db) of
              Inl e \<Rightarrow> Inl e
            | Inr (cleared, table) \<Rightarrow>
                Inr (if 0 < cleared then Some (round2 cleared) else None,
                     db\<lparr>debts := table\<rparr>)))"


definition amounts_ok :: "debt list \<Rightarrow> bool" where
  "amounts_ok table = list_all (\<lambda>r. is_cents (amount r) \<and> 0 < amount r) table"

definition ledger_ok :: "debt list \<Rightarrow> bool" where
  "ledger_ok table = (distinct (map debt_id table) \<and> amounts_ok table)"



text \<open>
  The balance. \<^verbatim>\<open>set_balance\<close> writes through a connection of its own; the flag
  \<open>locked\<close> says whether, at the moment of the call, another connection holds an
  uncommitted write. \<^verbatim>\<open>adjust_balance\<close> reads and then writes, each through a fresh
  connection; a read is not blocked.
\<close>

definition get_balance :: "database \<Rightarrow> money option" where
  "get_balance db = balance db"

definition set_balance :: "bool \<Rightarrow> money \<Rightarrow> database \<Rightarrow> db_error + database" where
  "set_balance locked a db =
     (if locked then Inl OperationalError else Inr (db\<lparr>balance := Some (round2 a)\<rparr>))"

definition adjust_balance :: "bool \<Rightarrow> money \<Rightarrow> database \<Rightarrow> db_error + database" where
  "adjust_balance locked delta db =
     (case get_balance db of
        None \<Rightarrow> Inr db
      | Some current \<Rightarrow> set_balance locked (current + delta) db)"

text \<open>
  \<^verbatim>\<open>delete_transaction\<close>. The \<^verbatim>\<open>DELETE\<close> runs on the method's own connection
  and stays uncommitted until the \<^verbatim>\<open>with\<close> block ends; the call of
  \<^verbatim>\<open>adjust_balance\<close> sits inside that block, so it runs with the write lock taken.
  An exception that leaves the block rolls the \<^verbatim>\<open>DELETE\<close> back: the error result
  carries no new state, the store is as it was.
\<close>

definition delete_transaction :: "nat \<Rightarrow> database \<Rightarrow> db_error + (bool \<times> database)" where
  "delete_transaction transaction_id db =
     (let current_bal = get_balance db
      in case find (\<lambda>t. txn_id t = transaction_id) (transactions db) of
           None \<Rightarrow> Inr (False, db)
         | Some row \<Rightarrow>
             (let db1 = db\<lparr>transactions :=
                         filter (\<lambda>t. txn_id t \<noteq> transaction_id) (transactions db)\<rparr>
              in if current_bal \<noteq> None then
                   (case (if txn_type row = ''spend'' then adjust_balance True (txn_amount row) db1
                          else adjust_balance True (- txn_amount row) db1) of
                      Inl e \<Rightarrow> Inl e
                    | Inr db2 \<Rightarrow> Inr (True, db2))
                 else Inr (True, db1)))"

text \<open>A small ledger used to exercise the theorems below.\<close>

definition example_ledger :: database where
  "example_ledger =
     \<lparr>debts = [debt_row 1 ''2026-01-02 10:00:00'' ''me'' ''Alice'' 20 ''lunch'',
               debt_row 2 ''2026-01-01 09:00:00'' ''alice'' ''me'' 10 ''taxi'',
               debt_row 3 ''2026-01-03 09:00:00'' ''me'' ''bob'' 5 ''tea''],
      transactions =
        [\<lparr>txn_id = 1, txn_amount = 25/2, txn_type = ''spend'', txn_category = ''food'',
          txn_description = ''groceries'', txn_created_at = ''2026-01-02 10:00:00''\<rparr>,
         \<lparr>txn_id = 2, txn_amount = 100, txn_type = ''income'', txn_category = ''income'',
          txn_description = ''salary'', txn_created_at = ''2026-01-03 10:00:00''\<rparr>],
      balance = Some 500\<rparr>"


section \<open>CSV import (finance.py)\<close>

text \<open>
  \<^verbatim>\<open>csv.reader\<close> belongs to the Python library, not to the repository: the model
  starts from the rows it returns, \<^verbatim>\<open>rows = list(reader)\<close>, each row a list of cells.
  The alias tables are those of the source; the Arabic headers are written as their UTF-8
  bytes.
\<close>

definition DATE_COLS :: "string list" where
  "DATE_COLS =
    [''date'',
     ''transaction date'',
     ''trans date'',
     ''value date'',
     ''posted date'',
     [CHR 0xD8, CHR 0xAA, CHR 0xD8, CHR 0xA7, CHR 0xD8, CHR 0xB1, CHR 0xD9, CHR 0x8A, CHR 0xD8, CHR 0xAE]]"

definition DESC_COLS :: "string list" where
  "DESC_COLS =
    [''description'',
     ''narrative'',
     ''details'',
     ''memo'',
     ''particulars'',
     ''transaction'',
     [CHR 0xD8, CHR 0xA8, CHR 0xD9, CHR 0x8A, CHR 0xD8, CHR 0xA7, CHR 0xD9, CHR 0x86]]"

definition AMOUNT_COLS :: "string list" where
  "AMOUNT_COLS =
    [''amount'',
     ''debit/credit'',
     ''value'',
     ''sum'',
     [CHR 0xD8, CHR 0xA7, CHR 0xD9, CHR 0x84, CHR 0xD9, CHR 0x85, CHR 0xD8, CHR 0xA8, CHR 0xD9, CHR 0x84, CHR 0xD8, CHR 0xBA]]"

definition DEBIT_COLS :: "string list" where
  "DEBIT_COLS =
    [''debit'',
     ''withdrawal'',
     [CHR 0xD8, CHR 0xB3, CHR 0xD8, CHR 0xAD, CHR 0xD8, CHR 0xA8]]"

definition CREDIT_COLS :: "string list" where
  "CREDIT_COLS =
    [''credit'',
     ''deposit'',
     [CHR 0xD8, CHR 0xA5, CHR 0xD9, CHR 0x8A, CHR 0xD8, CHR 0xAF, CHR 0xD8, CHR 0xA7, CHR 0xD8, CHR 0xB9]]"

text \<open>
  Reading a list out of range raises \<^verbatim>\<open>IndexError\<close> in Python; every indexed read of
  the source goes through \<open>py_index\<close>, so that an unguarded read would show as an error
  value.
\<close>

datatype py_error = IndexError

definition py_index :: "'a list \<Rightarrow> nat \<Rightarrow> py_error + 'a" where
  "py_index xs i = (if i < length xs then Inr (xs ! i) else Inl IndexError)"

text \<open>\<^verbatim>\<open>_find_col\<close>: the index of the first header cell that is one of the candidates.\<close>

fun find_col_from :: "nat \<Rightarrow> string list \<Rightarrow> string list \<Rightarrow> nat option" where
  "find_col_from i [] candidates = None"
| "find_col_from i (h # hs) candidates =
     (if lower (strip h) \<in> set candidates then Some i
      else find_col_from (Suc i) hs candidates)"

definition find_col :: "string list \<Rightarrow> string list \<Rightarrow> nat option" where
  "find_col headers candidates = find_col_from 0 headers candidates"

text \<open>
  \<^verbatim>\<open>_parse_amount\<close>. The regular expression keeps digits, \<open>.\<close>, \<open>-\<close> and \<open>+\<close>; what
  \<^verbatim>\<open>float\<close> accepts of such a string is an optional sign followed by digits with at
  most one point and at least one digit. Anything else raises \<^verbatim>\<open>ValueError\<close>, which the
  source catches and turns into \<^verbatim>\<open>None\<close>. The value is the exact decimal.
\<close>

definition is_digit :: "char \<Rightarrow> bool" where
  "is_digit c = (CHR ''0'' \<le> c \<and> c \<le> CHR ''9'')"

definition digits_value :: "string \<Rightarrow> nat" where
  "digits_value s = foldl (\<lambda>n c. 10 * n + (of_char c - 48)) 0 s"

definition unsigned_float :: "string \<Rightarrow> money option" where
  "unsigned_float s =
     (let ip = takeWhile is_digit s; rest = dropWhile is_digit s
      in case rest of
           [] \<Rightarrow> if ip = [] then None else Some (of_nat (digits_value ip))
         | c # fp \<Rightarrow>
             if c = CHR ''.'' \<and> list_all is_digit fp \<and> (ip \<noteq> [] \<or> fp \<noteq> []) then
               Some (of_nat (digits_value ip) + of_nat (digits_value fp) / 10 ^ length fp)
             else None)"

definition py_float :: "string \<Rightarrow> money option" where
  "py_float s =
     (case s of
        [] \<Rightarrow> None
      | c # cs \<Rightarrow>
          if c = CHR ''+'' then unsigned_float cs
          else if c = CHR ''-'' then map_option uminus (unsigned_float cs)
          else unsigned_float s)"

definition parse_amount :: "string \<Rightarrow> money option" where
  "parse_amount v =
     (let cleaned = filter (\<lambda>c. is_digit c \<or> c = CHR ''.'' \<or> c = CHR ''-'' \<or> c = CHR ''+'')
                      (filter (\<lambda>c. c \<noteq> CHR '','') v)
      in py_float cleaned)"

text \<open>
  The result of the import. The two file-level messages and the per-row message
  \<^verbatim>\<open>f"Could not parse amount in row: {row}"\<close> are constructors that carry what the
  message carries.
\<close>

datatype ingest_error = Empty_file | No_header | Could_not_parse "string list"

record parsed =
  p_date :: "string option"
  p_description :: string
  p_amount :: money

record columns =
  date_col :: "nat option"
  desc_col :: "nat option"
  amt_col :: "nat option"
  debit_col :: "nat option"
  credit_col :: "nat option"

definition columns_of :: "string list \<Rightarrow> columns" where
  "columns_of headers =
     \<lparr>date_col = find_col headers DATE_COLS,
      desc_col = find_col headers DESC_COLS,
      amt_col = find_col headers AMOUNT_COLS,
      debit_col = find_col headers DEBIT_COLS,
      credit_col = find_col headers CREDIT_COLS\<rparr>"

text \<open>The search for the header row, with the loop index of \<^verbatim>\<open>enumerate(rows)\<close>.\<close>

fun find_header :: "nat \<Rightarrow> string list list \<Rightarrow> (nat \<times> string list) option" where
  "find_header idx [] = None"
| "find_header idx (row # rows) =
     (let normalized = map (\<lambda>c. lower (strip c)) row
      in if list_ex (\<lambda>c. c \<in> set (DATE_COLS @ DESC_COLS @ AMOUNT_COLS)) normalized
         then Some (idx, normalized)
         else find_header (Suc idx) rows)"

text \<open>The three reads of the loop body, each with the guard the source puts before it.\<close>

definition row_description :: "columns \<Rightarrow> string list \<Rightarrow> py_error + string" where
  "row_description cols row =
     (case desc_col cols of
        Some i \<Rightarrow>
          if i < length row then (case py_index row i of Inl e \<Rightarrow> Inl e | Inr c \<Rightarrow> Inr (strip c))
          else Inr ''transaction''
      | None \<Rightarrow> Inr ''transaction'')"

definition row_date :: "columns \<Rightarrow> string list \<Rightarrow> py_error + string option" where
  "row_date cols row =
     (case date_col cols of
        Some i \<Rightarrow>
          if i < length row then (case py_index row i of Inl e \<Rightarrow> Inl e | Inr c \<Rightarrow> Inr (Some (strip c)))
          else Inr None
      | None \<Rightarrow> Inr None)"

definition cell_amount :: "string list \<Rightarrow> nat \<Rightarrow> py_error + money option" where
  "cell_amount row i =
     (if i < length row then (case py_index row i of Inl e \<Rightarrow> Inl e | Inr c \<Rightarrow> Inr (parse_amount c))
      else Inr None)"

definition significant :: "money option \<Rightarrow> bool" where
  "significant v = (case v of None \<Rightarrow> False | Some x \<Rightarrow> x \<noteq> 0 \<and> 1/1000 < \<bar>x\<bar>)"

definition debit_credit_amount :: "money option \<Rightarrow> money option \<Rightarrow> money option" where
  "debit_credit_amount debit credit =
     (let a1 = (if significant debit then Some (- \<bar>the debit\<bar>) else None)
      in if significant credit then Some \<bar>the credit\<bar> else a1)"

definition row_amount :: "columns \<Rightarrow> string list \<Rightarrow> py_error + money option" where
  "row_amount cols row =
     (if amt_col cols \<noteq> None \<and> the (amt_col cols) < length row then
        (case py_index row (the (amt_col cols)) of Inl e \<Rightarrow> Inl e | Inr c \<Rightarrow> Inr (parse_amount c))
      else if debit_col cols \<noteq> None \<and> credit_col cols \<noteq> None then
        (case cell_amount row (the (debit_col cols)) of
           Inl e \<Rightarrow> Inl e
         | Inr debit \<Rightarrow>
             (case cell_amount row (the (credit_col cols)) of
                Inl e \<Rightarrow> Inl e
              | Inr credit \<Rightarrow> Inr (debit_credit_amount debit credit)))
      else Inr None)"

text \<open>A row whose amount cannot be resolved.\<close>

definition unparseable :: "columns \<Rightarrow> string list \<Rightarrow> bool" where
  "unparseable cols row = (row_amount cols row = Inr None)"

definition non_blank :: "string list \<Rightarrow> bool" where
  "non_blank row = list_ex (\<lambda>cell. strip cell \<noteq> []) row"

text \<open>The loop over the data rows, with the two lists it appends to.\<close>

fun parse_rows ::
  "columns \<Rightarrow> string list list \<Rightarrow> parsed list \<Rightarrow> ingest_error list \<Rightarrow>
     py_error + (parsed list \<times> ingest_error list)" where
  "parse_rows cols [] txs errors = Inr (txs, errors)"
| "parse_rows cols (row # rows) txs errors =
     (if \<not> non_blank row then parse_rows cols rows txs errors
      else
        (case row_description cols row of
           Inl e \<Rightarrow> Inl e
         | Inr descr \<Rightarrow>
             (case row_date cols row of
                Inl e \<Rightarrow> Inl e
              | Inr date_str \<Rightarrow>
                  (case row_amount cols row of
                     Inl e \<Rightarrow> Inl e
                   | Inr None \<Rightarrow> parse_rows cols rows txs (errors @ [Could_not_parse row])
                   | Inr (Some a) \<Rightarrow>
                       parse_rows cols rows
                         (txs @ [\<lparr>p_date = date_str, p_description = descr, p_amount = round2 a\<rparr>])
                         errors))))"

definition parse_csv_transactions ::
  "string list list \<Rightarrow> py_error + (parsed list \<times> ingest_error list)" where
  "parse_csv_transactions rows =
     (if rows = [] then Inr ([], [Empty_file])
      else
        (case find_header 0 rows of
           None \<Rightarrow> Inr ([], [No_header])
         | Some (header_idx, headers) \<Rightarrow>
             parse_rows (columns_of headers) (drop (header_idx + 1) rows) [] []))"

text \<open>
  \<^verbatim>\<open>handle_document\<close> (bot.py) classifies an imported transaction by the sign of its
  amount.
\<close>

definition import_type :: "money \<Rightarrow> string" where
  "import_type a = (if 0 < a then ''income'' else ''spend'')"

section \<open>Facts about rounding and whole cents\<close>

lemma py_round_of_int: "py_round (of_int n) = n"
  by (simp add: py_round_def)

lemma is_cents_iff: "is_cents x \<longleftrightarrow> (\<exists>n::int. x = of_int n / 100)"
proof -
  have "x * 100 = of_int n \<longleftrightarrow> x = of_int n / 100" for n :: int
    by auto
  then show ?thesis
    by (simp add: is_cents_def)
qed

lemma round2_cents: "is_cents x \<Longrightarrow> round2 x = x"
  by (auto simp add: is_cents_iff round2_def py_round_of_int)

lemma is_cents_round2: "is_cents (round2 x)"
  by (auto simp add: is_cents_iff round2_def)

lemma is_cents_add: "is_cents x \<Longrightarrow> is_cents y \<Longrightarrow> is_cents (x + y)"
  unfolding is_cents_iff
proof -
  assume "\<exists>n::int. x = of_int n / 100" "\<exists>n::int. y = of_int n / 100"
  then obtain a b :: int where "x = of_int a / 100" "y = of_int b / 100" by blast
  then have "x + y = of_int (a + b) / 100" by (simp add: add_divide_distrib)
  then show "\<exists>n::int. x + y = of_int n / 100" ..
qed






section \<open>The settlement loop\<close>

lemma settle_loop_step:
  "settle_loop ((credit, ci) # cs) ((debt, dj) # ds) =
     (dj, ci, round2 (min credit debt)) #
     settle_loop
       (if round2 (credit - round2 (min credit debt)) < 1/100 then cs
        else (round2 (credit - round2 (min credit debt)), ci) # cs)
       (if round2 (debt - round2 (min credit debt)) < 1/100 then ds
        else (round2 (debt - round2 (min credit debt)), dj) # ds)"
  by (simp add: Let_def)

















section \<open>Net balances\<close>

lemma distinct_accumulate:
  "distinct (map fst net) \<Longrightarrow> distinct (map fst (accumulate net row))"
  by (simp add: accumulate_def Let_def distinct_update)

lemma distinct_foldl_accumulate:
  "distinct (map fst net) \<Longrightarrow> distinct (map fst (foldl accumulate net debt_rows))"
  by (induction debt_rows arbitrary: net) (simp_all add: distinct_accumulate)

lemma keys_accumulate:
  assumes "\<not> (lower (creditor row) = ''me'' \<and> lower (debtor row) = ''me'')"
    and "''me'' \<notin> fst ` set net"
  shows "''me'' \<notin> fst ` set (accumulate net row)"
  using assms by (auto simp add: accumulate_def Let_def dom_update)

lemma keys_foldl_accumulate:
  assumes "\<forall>row \<in> set debt_rows. \<not> (lower (creditor row) = ''me'' \<and> lower (debtor row) = ''me'')"
    and "''me'' \<notin> fst ` set net"
  shows "''me'' \<notin> fst ` set (foldl accumulate net debt_rows)"
  using assms
proof (induction debt_rows arbitrary: net)
  case Nil
  then show ?case by simp
next
  case (Cons row debt_rows)
  from Cons.prems have "''me'' \<notin> fst ` set (accumulate net row)"
    by (intro keys_accumulate) simp_all
  with Cons.prems Cons.IH [of "accumulate net row"] show ?case by simp
qed

lemma keys_compute_balances:
  "fst ` set (compute_balances debt_rows) \<subseteq> fst ` set (foldl accumulate [] debt_rows)"
  by (auto simp add: compute_balances_def intro: rev_image_eqI)

lemma settle_loop_names:
  assumes "(payer, receiver, a) \<in> set (settle_loop cs ds)"
  shows "receiver \<in> snd ` set cs \<and> payer \<in> snd ` set ds"
  using assms
proof (induction cs ds rule: settle_loop.induct)
  case (1 ds)
  then show ?case by simp
next
  case (2 c cs)
  then show ?case by simp
next
  case (3 credit ci cs debt dj ds)
  define amt where "amt = round2 (min credit debt)"
  define c' where "c' = round2 (credit - amt)"
  define d' where "d' = round2 (debt - amt)"
  define cs' where "cs' = (if c' < 1/100 then cs else (c', ci) # cs)"
  define ds' where "ds' = (if d' < 1/100 then ds else (d', dj) # ds)"
  have step: "settle_loop ((credit, ci) # cs) ((debt, dj) # ds) = (dj, ci, amt) # settle_loop cs' ds'"
    unfolding settle_loop_step cs'_def ds'_def c'_def d'_def amt_def ..
  have sub: "snd ` set cs' \<subseteq> snd ` set ((credit, ci) # cs)" "snd ` set ds' \<subseteq> snd ` set ((debt, dj) # ds)"
    by (auto simp add: cs'_def ds'_def)
  from "3.prems" have "(payer, receiver, a) = (dj, ci, amt) \<or> (payer, receiver, a) \<in> set (settle_loop cs' ds')"
    unfolding step by simp
  then show ?case
  proof
    assume "(payer, receiver, a) = (dj, ci, amt)"
    then show ?thesis by simp
  next
    assume "(payer, receiver, a) \<in> set (settle_loop cs' ds')"
    then have "receiver \<in> snd ` set cs' \<and> payer \<in> snd ` set ds'"
      unfolding cs'_def ds'_def by (rule "3.IH" [OF amt_def c'_def d'_def])
    with sub show ?thesis by blast
  qed
qed

lemma names_creditors_of: "snd ` set (creditors_of bs) \<subseteq> fst ` set bs"
  by (auto simp add: creditors_of_def intro: rev_image_eqI)

lemma names_debtors_of: "snd ` set (debtors_of bs) \<subseteq> fst ` set bs"
  by (auto simp add: debtors_of_def intro: rev_image_eqI)

text \<open>
  The mapping that \<open>compute_balances\<close> returns is a dictionary (its keys are distinct)
  and its values are whole cents of absolute value at least 0.01.
\<close>

lemma compute_balances_wellformed:
  "distinct (map fst (compute_balances debt_rows)) \<and>
   list_all (\<lambda>(k, v). is_cents v \<and> 1/100 \<le> \<bar>v\<bar>) (compute_balances debt_rows)"
proof -
  define net where "net = foldl accumulate [] debt_rows"
  have d: "distinct (map fst net)"
    unfolding net_def by (rule distinct_foldl_accumulate) simp
  have "map fst (compute_balances debt_rows) = map fst (filter (\<lambda>(k, v). 1/100 \<le> \<bar>v\<bar>) net)"
    by (simp add: compute_balances_def net_def case_prod_unfold)
  with d have "distinct (map fst (compute_balances debt_rows))"
    by (simp add: distinct_map_filter)
  moreover have "is_cents (round2 v) \<and> 1/100 \<le> \<bar>round2 v\<bar>" if "1/100 \<le> \<bar>v\<bar>" for v :: money
  proof -
    have near: "\<bar>v * 100 - of_int (py_round (v * 100))\<bar> \<le> 1/2"
      by (rule py_round_near)
    have "py_round (v * 100) \<noteq> 0"
    proof
      assume "py_round (v * 100) = 0"
      with near have "\<bar>v * 100\<bar> \<le> 1/2" by simp
      with that show False by (simp add: abs_mult)
    qed
    then have "1 \<le> \<bar>py_round (v * 100)\<bar>" by simp
    then have "(1::rat) \<le> \<bar>of_int (py_round (v * 100))\<bar>"
      by (metis of_int_1 of_int_abs of_int_le_iff)
    then show ?thesis by (simp add: is_cents_round2) (simp add: round2_def)
  qed
  ultimately show ?thesis
    by (auto simp add: compute_balances_def net_def list_all_iff)
qed


text \<open>
  Claim C10, as amended. For every list of debt rows none of which names the owner on both
  sides, \<open>me\<close> is not a key of the mapping returned by \<open>compute_balances\<close>, and no
  transfer that \<open>minimal_transfers\<close> produces from that mapping has \<open>me\<close> as payer or
  receiver.
\<close>

theorem owner_never_materialised:
  assumes "\<forall>row \<in> set debt_rows. \<not> (lower (creditor row) = ''me'' \<and> lower (debtor row) = ''me'')"
  shows "''me'' \<notin> fst ` set (compute_balances debt_rows) \<and>
    (\<forall>(payer, receiver, a) \<in> set (minimal_transfers (compute_balances debt_rows)).
       payer \<noteq> ''me'' \<and> receiver \<noteq> ''me'')"
proof -
  have "''me'' \<notin> fst ` set (foldl accumulate [] debt_rows)"
    using assms by (rule keys_foldl_accumulate) simp
  with keys_compute_balances have me: "''me'' \<notin> fst ` set (compute_balances debt_rows)"
    by blast
  have "payer \<noteq> ''me'' \<and> receiver \<noteq> ''me''"
    if "(payer, receiver, a) \<in> set (minimal_transfers (compute_balances debt_rows))"
    for payer receiver a
  proof -
    from that have "receiver \<in> snd ` set (creditors_of (compute_balances debt_rows)) \<and>
        payer \<in> snd ` set (debtors_of (compute_balances debt_rows))"
      unfolding minimal_transfers_def by (rule settle_loop_names)
    with names_creditors_of names_debtors_of
    have "receiver \<in> fst ` set (compute_balances debt_rows)"
      and "payer \<in> fst ` set (compute_balances debt_rows)" by blast+
    with me show ?thesis by blast
  qed
  with me show ?thesis by auto
qed


theorem owner_never_materialised_witness:
  "\<not> (lower (creditor (debts example_ledger ! 0)) = ''me'' \<and>
      lower (debtor (debts example_ledger ! 0)) = ''me'') \<and>
   \<not> (lower (creditor (debts example_ledger ! 1)) = ''me'' \<and>
      lower (debtor (debts example_ledger ! 1)) = ''me'') \<and>
   \<not> (lower (creditor (debts example_ledger ! 2)) = ''me'' \<and>
      lower (debtor (debts example_ledger ! 2)) = ''me'') \<and>
   compute_balances (debts example_ledger) = [(''alice'', 10), (''bob'', 5)] \<and>
   ''me'' \<notin> fst ` set (compute_balances (debts example_ledger)) \<and>
   minimal_transfers (compute_balances (debts example_ledger)) = []"
proof -
  have h: "\<not> (lower (creditor (debts example_ledger ! 0)) = ''me'' \<and>
        lower (debtor (debts example_ledger ! 0)) = ''me'')"
      "\<not> (lower (creditor (debts example_ledger ! 1)) = ''me'' \<and>
        lower (debtor (debts example_ledger ! 1)) = ''me'')"
      "\<not> (lower (creditor (debts example_ledger ! 2)) = ''me'' \<and>
        lower (debtor (debts example_ledger ! 2)) = ''me'')"
    by code_simp+
  have l: "debts example_ledger =
      [debts example_ledger ! 0, debts example_ledger ! 1, debts example_ledger ! 2]"
    by (simp add: example_ledger_def)
  have c: "compute_balances (debts example_ledger) = [(''alice'', 10), (''bob'', 5)]"
    by code_simp
  have t: "minimal_transfers (compute_balances (debts example_ledger)) = []"
    by code_simp
  have "\<forall>row \<in> set (debts example_ledger).
      \<not> (lower (creditor row) = ''me'' \<and> lower (debtor row) = ''me'')"
    using h by (subst l) simp
  from owner_never_materialised [OF this] h c t show ?thesis by blast
qed

text \<open>
  A record with the owner on both sides, which the bot stores for
  \<^verbatim>\<open>/owes @me 10 note\<close>, makes \<open>me\<close> a key of the mapping.
\<close>

theorem owner_both_sides_counterexample:
  "compute_balances [debt_row 7 ''2026-01-01 09:00:00'' ''me'' ''Me'' 10 ''note''] = [(''me'', 10)]"
  by code_simp

section \<open>Order of the creditor and debtor lists\<close>

lemma sort_mset_cong:
  fixes xs ys :: "('a::linorder) list"
  assumes "mset xs = mset ys"
  shows "sort xs = sort ys"
  by (rule properties_for_sort) (simp_all add: assms)

lemma creditors_of_mset_cong:
  assumes "mset bs = mset bs'"
  shows "creditors_of bs = creditors_of bs'"
proof -
  have "mset (map (\<lambda>(k, v). (v, k)) (filter (\<lambda>(k, v). 0 < v) bs)) =
      mset (map (\<lambda>(k, v). (v, k)) (filter (\<lambda>(k, v). 0 < v) bs'))"
    by (simp add: assms)
  then have "sort (map (\<lambda>(k, v). (v, k)) (filter (\<lambda>(k, v). 0 < v) bs)) =
      sort (map (\<lambda>(k, v). (v, k)) (filter (\<lambda>(k, v). 0 < v) bs'))"
    by (rule sort_mset_cong)
  then show ?thesis unfolding creditors_of_def by (rule arg_cong)
qed

lemma debtors_of_mset_cong:
  assumes "mset bs = mset bs'"
  shows "debtors_of bs = debtors_of bs'"
proof -
  have "mset (map (\<lambda>(k, v). (\<bar>v\<bar>, k)) (filter (\<lambda>(k, v). v < 0) bs)) =
      mset (map (\<lambda>(k, v). (\<bar>v\<bar>, k)) (filter (\<lambda>(k, v). v < 0) bs'))"
    by (simp add: assms)
  then have "sort (map (\<lambda>(k, v). (\<bar>v\<bar>, k)) (filter (\<lambda>(k, v). v < 0) bs)) =
      sort (map (\<lambda>(k, v). (\<bar>v\<bar>, k)) (filter (\<lambda>(k, v). v < 0) bs'))"
    by (rule sort_mset_cong)
  then show ?thesis unfolding debtors_of_def by (rule arg_cong)
qed

lemma descending_rev_sort: "descending (rev (sort xs))"
proof -
  have "sorted_wrt (\<lambda>x y. y \<le> x) (rev (sort xs))"
    by (simp add: sorted_wrt_rev)
  moreover have "y \<le> x \<Longrightarrow> (case x of (v1, k1) \<Rightarrow> \<lambda>(v2, k2). v2 < v1 \<or> (v2 = v1 \<and> k2 \<le> k1)) y"
    for x y :: "money \<times> string"
    by (cases x; cases y) (auto simp add: less_eq_prod_def)
  ultimately show ?thesis
    unfolding descending_def by (rule sorted_wrt_mono_rel [rotated]) simp
qed

text \<open>
  Claim C9, as amended. The creditor list and the debtor list are each sorted by amount
  descending, entries with equal amounts are ordered by person handle descending, and
  the transfer list depends only on the entries of the mapping: two mappings with the
  same entries in a different iteration order give the same transfers.
\<close>

theorem transfer_order_deterministic:
  "descending (creditors_of bs) \<and> descending (debtors_of bs) \<and>
   (mset bs = mset bs' \<longrightarrow> minimal_transfers bs = minimal_transfers bs')"
proof (intro conjI impI)
  show "descending (creditors_of bs)"
    unfolding creditors_of_def by (rule descending_rev_sort)
  show "descending (debtors_of bs)"
    unfolding debtors_of_def by (rule descending_rev_sort)
  assume "mset bs = mset bs'"
  then have "creditors_of bs = creditors_of bs'" and "debtors_of bs = debtors_of bs'"
    by (rule creditors_of_mset_cong, rule debtors_of_mset_cong)
  then show "minimal_transfers bs = minimal_transfers bs'"
    by (simp only: minimal_transfers_def)
qed

theorem transfer_order_deterministic_witness:
  "mset [(''a'', 5::money), (''b'', 5), (''c'', -10)] = mset [(''c'', -10), (''b'', 5), (''a'', 5)] \<and>
   minimal_transfers [(''a'', 5), (''b'', 5), (''c'', -10)] =
   minimal_transfers [(''c'', -10), (''b'', 5), (''a'', 5)] \<and>
   descending (creditors_of [(''a'', 5), (''b'', 5), (''c'', -10)])"
proof -
  have m: "mset [(''a'', 5::money), (''b'', 5), (''c'', -10)] = mset [(''c'', -10), (''b'', 5), (''a'', 5)]"
    by simp
  from transfer_order_deterministic [of "[(''a'', 5), (''b'', 5), (''c'', -10)]" "[(''c'', -10), (''b'', 5), (''a'', 5)]"] m
  show ?thesis by blast
qed

text \<open>
  Ties are not broken by ascending handle: \<open>a\<close> and \<open>b\<close> are both owed 5, and \<open>b\<close>
  comes first in the creditor list and is paid first.
\<close>

theorem ties_descending_counterexample:
  "creditors_of [(''a'', 5), (''b'', 5), (''c'', -10)] = [(5, ''b''), (5, ''a'')] \<and>
   ''a'' < ''b'' \<and>
   minimal_transfers [(''a'', 5), (''b'', 5), (''c'', -10)] = [(''c'', ''b'', 5), (''c'', ''a'', 5)]"
  by code_simp

section \<open>Clearing debts\<close>


text \<open>\<open>add_debt\<close> keeps the ledger invariant when the store hands out a fresh id.\<close>

lemma add_debt_keeps_ledger_ok:
  assumes "ledger_ok (debts db)" and "new_id \<notin> debt_id ` set (debts db)"
    and "add_debt new_id now c d a descr db = Inr db'"
  shows "ledger_ok (debts db')"
proof -
  from assms(3) have pos: "0 < round2 a"
    and db': "debts db' = debts db @ [debt_row new_id now c d a descr]"
    by (auto simp add: add_debt_def split: if_splits)
  have "debt_id (debt_row new_id now c d a descr) = new_id"
    and "amount (debt_row new_id now c d a descr) = round2 a"
    by (simp_all add: debt_row_def)
  with assms(1,2) pos show ?thesis
    by (simp add: db' ledger_ok_def amounts_ok_def is_cents_round2)
qed





























text \<open>
  Claim C7, the program at a failing input. The claim wants \<open>None\<close> exactly when nothing
  is found and a positive cleared total otherwise. Bob has an unsettled record of 5.00;
  for the positive payment 0.002 the test \<^verbatim>\<open>cleared > 0\<close> passes and the rounding that
  follows it turns the total into 0.00: the call returns a cleared total of zero, which
  is neither \<open>None\<close> nor positive, and the ledger is unchanged.
\<close>

theorem clear_debt_cleared_zero:
  "involves (lower ''Bob'') (debts example_ledger ! 2) \<and>
   (0::money) < 1/500 \<and>
   clear_debt ''Bob'' (Some (1/500)) example_ledger = Inr (Some 0, example_ledger)"
  by code_simp

section \<open>Deleting a transaction\<close>

text \<open>
  With a balance set, the adjustment of the balance is attempted while the deletion is
  uncommitted, and fails; without a balance the deletion goes through. Outside such a
  block \<open>adjust_balance\<close> does reverse an amount exactly.
\<close>

lemma delete_transaction_locked:
  assumes "balance db \<noteq> None"
    and "find (\<lambda>t. txn_id t = i) (transactions db) = Some row"
  shows "delete_transaction i db = Inl OperationalError"
  using assms
  by (auto simp add: delete_transaction_def get_balance_def adjust_balance_def set_balance_def
      Let_def)

lemma delete_transaction_no_balance:
  assumes "balance db = None"
    and "find (\<lambda>t. txn_id t = i) (transactions db) = Some row"
  shows "delete_transaction i db =
    Inr (True, db\<lparr>transactions := filter (\<lambda>t. txn_id t \<noteq> i) (transactions db)\<rparr>)"
  using assms by (simp add: delete_transaction_def get_balance_def Let_def)

lemma adjust_balance_unlocked:
  assumes "balance db = Some b" and "is_cents b" and "is_cents x"
  shows "adjust_balance False x db = Inr (db\<lparr>balance := Some (b + x)\<rparr>)"
  using assms by (simp add: adjust_balance_def get_balance_def set_balance_def round2_cents is_cents_add)

text \<open>
  Claim C5, the program at a failing input. The claim wants the deletion of a spend of
  \<open>X\<close> to raise the balance by \<open>X\<close> and the deletion of an income of \<open>X\<close> to lower it by
  \<open>X\<close>. With the balance set to 500.00, deleting the stored spend of 12.50 or the stored
  income of 100.00 raises \<open>OperationalError\<close> instead: the transaction is not deleted and
  the balance is not adjusted.
\<close>

theorem delete_transaction_raises:
  "balance example_ledger = Some 500 \<and>
   find (\<lambda>t. txn_id t = 1) (transactions example_ledger) = Some (transactions example_ledger ! 0) \<and>
   txn_type (transactions example_ledger ! 0) = ''spend'' \<and>
   txn_amount (transactions example_ledger ! 0) = 25/2 \<and>
   delete_transaction 1 example_ledger = Inl OperationalError \<and>
   delete_transaction 2 example_ledger = Inl OperationalError"
  by code_simp

section \<open>CSV import\<close>

lemma row_description_returns: "\<exists>d. row_description cols row = Inr d"
  by (simp add: row_description_def py_index_def split: option.split)

lemma row_date_returns: "\<exists>d. row_date cols row = Inr d"
  by (simp add: row_date_def py_index_def split: option.split)

lemma cell_amount_returns: "\<exists>a. cell_amount row i = Inr a"
  by (simp add: cell_amount_def py_index_def)

lemma row_amount_returns: "\<exists>a. row_amount cols row = Inr a"
proof -
  obtain d where d: "cell_amount row (the (debit_col cols)) = Inr d"
    using cell_amount_returns by blast
  obtain c where c: "cell_amount row (the (credit_col cols)) = Inr c"
    using cell_amount_returns by blast
  show ?thesis
    by (simp add: row_amount_def py_index_def d c)
qed

lemma parse_rows_returns:
  "\<exists>new. parse_rows cols rows txs errors =
      Inr (txs @ new,
           errors @ map Could_not_parse (filter (unparseable cols) (filter non_blank rows))) \<and>
    length new + length (filter (unparseable cols) (filter non_blank rows)) =
      length (filter non_blank rows)"
proof (induction rows arbitrary: txs errors)
  case Nil
  show ?case by simp
next
  case (Cons row rows)
  show ?case
  proof (cases "non_blank row")
    case False
    with Cons.IH [of txs errors] show ?thesis by simp
  next
    case True
    obtain descr where descr: "row_description cols row = Inr descr"
      using row_description_returns by blast
    obtain date_str where date_str: "row_date cols row = Inr date_str"
      using row_date_returns by blast
    obtain a where a: "row_amount cols row = Inr a"
      using row_amount_returns by blast
    show ?thesis
    proof (cases a)
      case None
      with a have bad: "unparseable cols row" by (simp add: unparseable_def)
      from Cons.IH [of txs "errors @ [Could_not_parse row]"]
      show ?thesis using True descr date_str a None bad by simp
    next
      case (Some v)
      with a have good: "\<not> unparseable cols row" by (simp add: unparseable_def)
      define t where "t = \<lparr>p_date = date_str, p_description = descr, p_amount = round2 v\<rparr>"
      from Cons.IH [of "txs @ [t]" errors]
      obtain new where new: "parse_rows cols rows (txs @ [t]) errors =
          Inr ((txs @ [t]) @ new,
            errors @ map Could_not_parse (filter (unparseable cols) (filter non_blank rows)))"
        "length new + length (filter (unparseable cols) (filter non_blank rows)) =
          length (filter non_blank rows)"
        by blast
      have "parse_rows cols (row # rows) txs errors =
          Inr (txs @ (t # new),
            errors @ map Could_not_parse (filter (unparseable cols) (filter non_blank (row # rows))))"
        using True descr date_str a Some good new(1) by (simp add: t_def)
      moreover have "length (t # new) +
          length (filter (unparseable cols) (filter non_blank (row # rows))) =
          length (filter non_blank (row # rows))"
        using True good new(2) by simp
      ultimately show ?thesis by blast
    qed
  qed
qed

text \<open>
  Claim C6, as amended. For every list of rows the CSV reader hands over,
  \<open>parse_csv_transactions\<close> raises nothing and returns a pair of transactions and
  errors. It returns no transaction and the single error \<open>Empty_file\<close> exactly when there
  are no rows, and no transaction and the single error \<open>No_header\<close> exactly when there are
  rows and none of them is recognised as a header. When a header is found, the errors are
  exactly one \<open>Could_not_parse\<close> per non-blank data row whose amount cannot be resolved,
  in order, and every other non-blank data row yields a transaction: an unparseable row
  only appends to the error list and parsing continues. Such a file can also yield no
  transaction at all.
\<close>

theorem parse_csv_transactions_returns:
  "(\<exists>txs errors. parse_csv_transactions rows = Inr (txs, errors)) \<and>
   (parse_csv_transactions rows = Inr ([], [Empty_file]) \<longleftrightarrow> rows = []) \<and>
   (parse_csv_transactions rows = Inr ([], [No_header]) \<longleftrightarrow>
      rows \<noteq> [] \<and> find_header 0 rows = None) \<and>
   (\<forall>idx headers. rows \<noteq> [] \<and> find_header 0 rows = Some (idx, headers) \<longrightarrow>
      (\<exists>txs. parse_csv_transactions rows =
          Inr (txs, map Could_not_parse
                 (filter (unparseable (columns_of headers))
                    (filter non_blank (drop (idx + 1) rows)))) \<and>
        length txs + length (filter (unparseable (columns_of headers))
                    (filter non_blank (drop (idx + 1) rows))) =
          length (filter non_blank (drop (idx + 1) rows))))"
proof (cases "rows = []")
  case True
  then show ?thesis by (simp add: parse_csv_transactions_def)
next
  case ne: False
  show ?thesis
  proof (cases "find_header 0 rows")
    case None
    with ne show ?thesis by (simp add: parse_csv_transactions_def)
  next
    case (Some h)
    obtain idx headers where h: "h = (idx, headers)" by (cases h)
    define data where "data = drop (idx + 1) rows"
    from parse_rows_returns [of "columns_of headers" data "[]" "[]"]
    obtain txs where txs: "parse_rows (columns_of headers) data [] [] =
        Inr (txs, map Could_not_parse (filter (unparseable (columns_of headers)) (filter non_blank data)))"
      "length txs + length (filter (unparseable (columns_of headers)) (filter non_blank data)) =
        length (filter non_blank data)"
      by auto
    have res: "parse_csv_transactions rows =
        Inr (txs, map Could_not_parse (filter (unparseable (columns_of headers)) (filter non_blank data)))"
      using ne Some h txs(1) by (simp add: parse_csv_transactions_def data_def)
    have "map Could_not_parse xs \<noteq> [Empty_file]" "map Could_not_parse xs \<noteq> [No_header]" for xs
      by (cases xs; simp)+
    with res have "parse_csv_transactions rows \<noteq> Inr ([], [Empty_file])"
      "parse_csv_transactions rows \<noteq> Inr ([], [No_header])" by simp_all
    with ne Some h res txs(2) show ?thesis
      unfolding data_def by auto
  qed
qed

theorem parse_csv_transactions_returns_witness:
  "[[''amount'', ''memo''], [''1,250.00'', ''rent''], [''n/a'', ''fee''], [''-3.5'', ''tea'']] \<noteq> [] \<and>
   find_header 0 [[''amount'', ''memo''], [''1,250.00'', ''rent''], [''n/a'', ''fee''], [''-3.5'', ''tea'']]
     = Some (0, [''amount'', ''memo'']) \<and>
   parse_csv_transactions
     [[''amount'', ''memo''], [''1,250.00'', ''rent''], [''n/a'', ''fee''], [''-3.5'', ''tea'']] =
     Inr ([\<lparr>p_date = None, p_description = ''rent'', p_amount = 1250\<rparr>,
           \<lparr>p_date = None, p_description = ''tea'', p_amount = -7/2\<rparr>],
          [Could_not_parse [''n/a'', ''fee'']]) \<and>
   length (filter (unparseable (columns_of [''amount'', ''memo'']))
     (filter non_blank (drop (0 + 1)
        [[''amount'', ''memo''], [''1,250.00'', ''rent''], [''n/a'', ''fee''], [''-3.5'', ''tea'']]))) = 1"
proof -
  define rows where "rows =
    [[''amount'', ''memo''], [''1,250.00'', ''rent''], [''n/a'', ''fee''], [''-3.5'', ''tea'']]"
  have ne: "rows \<noteq> []" by (simp add: rows_def)
  have h: "find_header 0 rows = Some (0, [''amount'', ''memo''])"
    unfolding rows_def by code_simp
  have r: "parse_csv_transactions rows =
     Inr ([\<lparr>p_date = None, p_description = ''rent'', p_amount = 1250\<rparr>,
           \<lparr>p_date = None, p_description = ''tea'', p_amount = -7/2\<rparr>],
          [Could_not_parse [''n/a'', ''fee'']])"
    unfolding rows_def by code_simp
  from parse_csv_transactions_returns [of rows] ne h
  obtain txs where "parse_csv_transactions rows =
          Inr (txs, map Could_not_parse
                 (filter (unparseable (columns_of [''amount'', ''memo'']))
                    (filter non_blank (drop (0 + 1) rows))))"
      and "length txs + length (filter (unparseable (columns_of [''amount'', ''memo'']))
                    (filter non_blank (drop (0 + 1) rows))) =
          length (filter non_blank (drop (0 + 1) rows))"
    by blast
  with r have "length (filter (unparseable (columns_of [''amount'', ''memo'']))
      (filter non_blank (drop (0 + 1) rows))) = 1"
    by (simp add: map_eq_Cons_conv)
  with ne h r show ?thesis unfolding rows_def by blast
qed

text \<open>
  A file with a recognised header and one data row whose amount does not parse yields no
  transaction and a single error, although it is neither empty nor without header.
\<close>

theorem parse_csv_bad_row_counterexample:
  "parse_csv_transactions [[''amount''], [''abc'']] = Inr ([], [Could_not_parse [''abc'']]) \<and>
   [[''amount''], [''abc'']] \<noteq> [] \<and>
   find_header 0 [[''amount''], [''abc'']] = Some (0, [''amount''])"
  by code_simp

text \<open>
  Claim C8. The statement with header row \<^verbatim>\<open>date,amount,category,description\<close> and the
  single data row \<^verbatim>\<open>2026-02-26,50.00,food,groceries\<close> parses to exactly one transaction
  with date \<open>2026-02-26\<close>, description \<open>groceries\<close> and amount 50.00, with an empty error
  list, and the import path classifies it as income because the amount is positive.
\<close>

theorem csv_round_trip:
  "parse_csv_transactions
     [[''date'', ''amount'', ''category'', ''description''],
      [''2026-02-26'', ''50.00'', ''food'', ''groceries'']] =
     Inr ([\<lparr>p_date = Some ''2026-02-26'', p_description = ''groceries'', p_amount = 50\<rparr>], []) \<and>
   map (\<lambda>t. import_type (p_amount t))
     [\<lparr>p_date = Some ''2026-02-26'', p_description = ''groceries'', p_amount = 50\<rparr>] =
     [''income'']"
  by code_simp


end
